theory Spec2Isabelle
  imports Main
begin

section \<open>Python string operations used by cups\_lpadmin\<close>

text \<open>
  The module runs under Python 2 (\<open>iteritems\<close>, a list-valued \<open>map\<close>), where the text
  returned by \<open>run_command\<close> is a byte string. The operations below are the ones the
  module calls on such strings, written as functions on \<open>string\<close>.
\<close>

text \<open>\<open>s.startswith(p)\<close>\<close>

definition startswith :: "string \<Rightarrow> string \<Rightarrow> bool" where
  "startswith s p = (take (length p) s = p)"

text \<open>\<open>p in s\<close> for strings: \<open>p\<close> occurs in \<open>s\<close> as a contiguous substring.\<close>

fun contains :: "string \<Rightarrow> string \<Rightarrow> bool" where
  "contains p [] = (p = [])"
| "contains p (c # cs) = (startswith (c # cs) p \<or> contains p cs)"

text \<open>The characters \<open>str.strip()\<close> removes: space, tab, line feed, vertical tab, form feed,
  carriage return.\<close>

definition isspace :: "char \<Rightarrow> bool" where
  "isspace c = (c \<in> set [CHR '' '', CHR 0x09, CHR 0x0A, CHR 0x0B, CHR 0x0C, CHR 0x0D])"

text \<open>\<open>s.strip()\<close> and \<open>s.strip('\n')\<close>: drop the characters from both ends.\<close>

definition strip_chars :: "(char \<Rightarrow> bool) \<Rightarrow> string \<Rightarrow> string" where
  "strip_chars P s = rev (dropWhile P (rev (dropWhile P s)))"

definition strip :: "string \<Rightarrow> string" where
  "strip s = strip_chars isspace s"

definition strip_nl :: "string \<Rightarrow> string" where
  "strip_nl s = strip_chars (\<lambda>c. c = CHR 0x0A) s"

text \<open>\<open>s.split(sep, 1)\<close> for a one-character separator: the whole string when the separator
  does not occur, otherwise the text before and the text after its first occurrence.\<close>

definition split1 :: "char \<Rightarrow> string \<Rightarrow> string list" where
  "split1 sep s =
     (if sep \<in> set s
      then [takeWhile (\<lambda>c. c \<noteq> sep) s, tl (dropWhile (\<lambda>c. c \<noteq> sep) s)]
      else [s])"

text \<open>\<open>s.splitlines()\<close> on a byte string: lines end at LF, CR or CR LF; the terminators are
  dropped and no empty last line is produced. The first argument is the line read so far.\<close>

fun splitlines_from :: "string \<Rightarrow> string \<Rightarrow> string list" where
  "splitlines_from cur [] = (if cur = [] then [] else [cur])"
| "splitlines_from cur [c] =
     (if c = CHR 0x0A \<or> c = CHR 0x0D then [cur] else [cur @ [c]])"
| "splitlines_from cur (c # d # cs) =
     (if c = CHR 0x0D \<and> d = CHR 0x0A then cur # splitlines_from [] cs
      else if c = CHR 0x0A \<or> c = CHR 0x0D then cur # splitlines_from [] (d # cs)
      else splitlines_from (cur @ [c]) (d # cs))"

definition splitlines :: "string \<Rightarrow> string list" where
  "splitlines s = splitlines_from [] s"

section \<open>The module's parameters and the external command executor\<close>

text \<open>
  \<open>CUPSPrinter.__init__\<close> copies the module parameters into fields. The \<open>options\<close>
  dictionary is kept as the list of its items (its keys are distinct).
\<close>

record printer =
  destination :: string
  uri :: "string option"
  enabled :: bool
  shared :: bool
  model :: "string option"
  info :: "string option"
  location :: "string option"
  options :: "(string \<times> string) list"

text \<open>The truth value of an optional string: \<open>None\<close> and the empty string are false.\<close>

definition truthy :: "string option \<Rightarrow> bool" where
  "truthy v = (case v of None \<Rightarrow> False | Some s \<Rightarrow> s \<noteq> [])"

text \<open>The end of \<open>__init__\<close>: a non-empty uri without \<open>://\<close> becomes an lpd uri.\<close>

definition init :: "printer \<Rightarrow> printer" where
  "init params =
     (case uri params of
        None \<Rightarrow> params
      | Some u \<Rightarrow>
          if u \<noteq> [] \<and> \<not> contains ''://'' u
          then params\<lparr>uri := Some (''lpd://'' @ u @ ''/'')\<rparr>
          else params)"

text \<open>
  \<open>module.run_command(cmd)\<close> runs an external program and returns its exit status, its
  standard output and its standard error. The printing subsystem is a state of any type
  \<open>'w\<close> with an executor that answers a command and moves the state; the system state
  also records every command issued, in order. Every command gets an answer: a program
  that cannot be started is not part of this model.
\<close>

type_synonym cmd_result = "int \<times> string \<times> string"

type_synonym 'w executor = "string list \<Rightarrow> 'w \<Rightarrow> cmd_result \<times> 'w"

record 'w sys =
  world :: 'w
  calls :: "string list list"

definition run_command :: "'w executor \<Rightarrow> string list \<Rightarrow> 'w sys \<Rightarrow> cmd_result \<times> 'w sys" where
  "run_command run cmd s =
     (case run cmd (world s) of
        (r, w') \<Rightarrow> (r, \<lparr>world = w', calls = calls s @ [cmd]\<rparr>))"

text \<open>The commands that change the printing subsystem are the \<open>lpadmin\<close> ones; \<open>lpstat\<close>,
  \<open>lpinfo\<close> and \<open>lpoptions\<close> only query it.\<close>

definition mutating :: "string list \<Rightarrow> bool" where
  "mutating cmd = (case cmd of [] \<Rightarrow> False | prog # _ \<Rightarrow> prog = ''lpadmin'')"

text \<open>The mutating commands issued so far.\<close>

definition mutations :: "'w sys \<Rightarrow> string list list" where
  "mutations s = filter mutating (calls s)"

text \<open>
  How a run of the module can end without a result: \<open>fail_json\<close> with its message, or an
  exception nobody catches.
\<close>

datatype failure = FailJson string | IndexError | KeyError | ValueError | TypeError

definition ConfigurationError :: failure where
  "ConfigurationError = FailJson (CHR 0x27 # ''uri'' @ CHR 0x27 # '' is required for present state'')"

definition DriverNotFoundError :: failure where
  "DriverNotFoundError = FailJson ''unable to determine printer make and model''"

section \<open>\<open>shlex.split\<close>\<close>

text \<open>
  \<open>shlex.split(s)\<close> of the standard library runs the \<open>shlex\<close> tokenizer in POSIX mode with
  \<open>whitespace_split\<close> set and no comment characters. \<open>read_token\<close> is a state machine over
  the characters: \<open>state\<close> is blank (\<open>' '\<close>), inside a word (\<open>'a'\<close>), inside a quotation
  (the quote character) or after an escape character; \<open>escapedstate\<close> is the state an escape
  returns to; \<open>quoted\<close> says that the token being read had a quotation; \<open>token\<close> is the
  text read so far. Whitespace is space, tab, CR and LF, the quotes are \<open>'\<close> and \<open>"\<close>,
  the escape is the backslash, and only \<open>"\<close> allows escapes inside. An input that ends
  inside a quotation or after an escape raises \<open>ValueError\<close>.
\<close>

datatype lexstate = SBlank | SWord | SQuote char | SEscape

definition lex_whitespace :: "char \<Rightarrow> bool" where
  "lex_whitespace c = (c \<in> set [CHR '' '', CHR 0x09, CHR 0x0D, CHR 0x0A])"

definition lex_quote :: "char \<Rightarrow> bool" where
  "lex_quote c = (c = CHR 0x27 \<or> c = CHR 0x22)"

definition lex_escape :: "char \<Rightarrow> bool" where
  "lex_escape c = (c = CHR 0x5C)"

text \<open>The end of \<open>read_token\<close>: an empty token that had no quotation is the end of input.\<close>

definition last_token :: "bool \<Rightarrow> string \<Rightarrow> string list" where
  "last_token quoted tok = (if \<not> quoted \<and> tok = [] then [] else [tok])"

definition emit :: "string \<Rightarrow> failure + string list \<Rightarrow> failure + string list" where
  "emit tok rest = (case rest of Inl e \<Rightarrow> Inl e | Inr ts \<Rightarrow> Inr (tok # ts))"

text \<open>What an escaped character adds to the token: inside a quotation the backslash stays
  unless it escapes the quote itself or another backslash.\<close>

definition escaped :: "lexstate \<Rightarrow> char \<Rightarrow> string" where
  "escaped esc c =
     (case esc of
        SQuote q \<Rightarrow> if c \<noteq> CHR 0x5C \<and> c \<noteq> q then [CHR 0x5C, c] else [c]
      | _ \<Rightarrow> [c])"

fun read_tokens :: "lexstate \<Rightarrow> lexstate \<Rightarrow> bool \<Rightarrow> string \<Rightarrow> string \<Rightarrow> failure + string list" where
  "read_tokens SBlank esc quoted tok [] = Inr (last_token quoted tok)"
| "read_tokens SWord esc quoted tok [] = Inr (last_token quoted tok)"
| "read_tokens (SQuote q) esc quoted tok [] = Inl ValueError"
| "read_tokens SEscape esc quoted tok [] = Inl ValueError"
| "read_tokens SBlank esc quoted tok (c # cs) =
     (if lex_whitespace c then
        (if tok \<noteq> [] \<or> quoted then emit tok (read_tokens SBlank SBlank False [] cs)
         else read_tokens SBlank esc quoted tok cs)
      else if lex_escape c then read_tokens SEscape SWord quoted tok cs
      else if lex_quote c then read_tokens (SQuote c) esc quoted tok cs
      else read_tokens SWord esc quoted [c] cs)"
| "read_tokens (SQuote q) esc quoted tok (c # cs) =
     (if c = q then read_tokens SWord esc True tok cs
      else if lex_escape c \<and> q = CHR 0x22 then read_tokens SEscape (SQuote q) True tok cs
      else read_tokens (SQuote q) esc True (tok @ [c]) cs)"
| "read_tokens SEscape esc quoted tok (c # cs) =
     read_tokens esc esc quoted (tok @ escaped esc c) cs"
| "read_tokens SWord esc quoted tok (c # cs) =
     (if lex_whitespace c then
        (if tok \<noteq> [] \<or> quoted then emit tok (read_tokens SBlank SBlank False [] cs)
         else read_tokens SBlank esc quoted tok cs)
      else if lex_quote c then read_tokens (SQuote c) esc quoted tok cs
      else if lex_escape c then read_tokens SEscape SWord quoted tok cs
      else read_tokens SWord esc quoted (tok @ [c]) cs)"

definition shlex_split :: "string \<Rightarrow> failure + string list" where
  "shlex_split s = read_tokens SBlank SBlank False [] s"

section \<open>The driver catalog\<close>

text \<open>
  \<open>re.split(prog, out)\<close> for \<open>prog = re.compile("^Model:", re.MULTILINE)\<close>: the text is cut
  at every \<open>Model:\<close> that starts the text or follows a line feed, and the marker is
  dropped. The first argument says whether the position starts a line, the second is the
  piece read so far.
\<close>

function re_split_from :: "bool \<Rightarrow> string \<Rightarrow> string \<Rightarrow> string list" where
  "re_split_from bol cur [] = [cur]"
| "re_split_from bol cur (c # cs) =
     (if bol \<and> startswith (c # cs) ''Model:''
      then cur # re_split_from False [] (drop 6 (c # cs))
      else re_split_from (c = CHR 0x0A) (cur @ [c]) cs)"
  by pat_completeness auto
termination
  by (relation "measure (\<lambda>(bol, cur, s). length s)") auto

definition re_split_model :: "string \<Rightarrow> string list" where
  "re_split_model out = re_split_from True [] out"

type_synonym driver = "string \<rightharpoonup> string"

text \<open>The inner loop of \<open>_get_installed_drivers\<close>: every line of a record is cut at its
  first \<open>=\<close>, both sides stripped; a line without \<open>=\<close> has no \<open>kv[1]\<close>.\<close>

fun read_record :: "driver \<Rightarrow> string list \<Rightarrow> failure + driver" where
  "read_record cur [] = Inr cur"
| "read_record cur (l # ls) =
     (case map strip (split1 CHR ''='' l) of
        k # v # _ \<Rightarrow> read_record (cur(k \<mapsto> v)) ls
      | _ \<Rightarrow> Inl IndexError)"

text \<open>The outer loop: blank pieces are skipped, the name of a record gets a leading \<open>/\<close>
  when it has no \<open>://\<close>, and the record is stored under its name.\<close>

fun read_drivers :: "(string \<rightharpoonup> driver) \<Rightarrow> string list \<Rightarrow> failure + (string \<rightharpoonup> driver)" where
  "read_drivers drivers [] = Inr drivers"
| "read_drivers drivers (d # ds) =
     (if strip d = [] then read_drivers drivers ds
      else (case read_record Map.empty (splitlines d) of
        Inl e \<Rightarrow> Inl e
      | Inr cur \<Rightarrow>
          (case cur ''name'' of
             None \<Rightarrow> Inl KeyError
           | Some n \<Rightarrow>
               (let cur' = (if \<not> contains ''://'' n then cur(''name'' \<mapsto> ''/'' @ n) else cur)
                in (case cur' ''name'' of
                     None \<Rightarrow> Inl KeyError
                   | Some key \<Rightarrow> read_drivers (drivers(key \<mapsto> cur')) ds)))))"

definition parse_drivers :: "string \<Rightarrow> failure + (string \<rightharpoonup> driver)" where
  "parse_drivers out = read_drivers Map.empty (re_split_model out)"

definition get_installed_drivers ::
  "'w executor \<Rightarrow> 'w sys \<Rightarrow> (failure + (string \<rightharpoonup> driver)) \<times> 'w sys" where
  "get_installed_drivers run s =
     (case run_command run [''lpinfo'', ''-l'', ''-m''] s of
        ((rc, out, err), s') \<Rightarrow> (parse_drivers out, s'))"

definition get_make_and_model :: "'w executor \<Rightarrow> printer \<Rightarrow> 'w sys \<Rightarrow> (failure + string) \<times> 'w sys" where
  "get_make_and_model run p s =
     (case model p of
        None \<Rightarrow> (Inr ''Local Raw Printer'', s)
      | Some m \<Rightarrow>
          if m = [] then (Inr ''Local Raw Printer'', s)
          else (case get_installed_drivers run s of
            (Inl e, s') \<Rightarrow> (Inl e, s')
          | (Inr installed_drivers, s') \<Rightarrow>
              (case installed_drivers m of
                 Some drv \<Rightarrow>
                   (case drv ''make-and-model'' of
                      None \<Rightarrow> (Inl KeyError, s')
                    | Some mm \<Rightarrow> (Inr mm, s'))
               | None \<Rightarrow> (Inl DriverNotFoundError, s'))))"

section \<open>The commands and the queries\<close>

text \<open>An optional argument of \<open>lpadmin\<close>: added only when the field is set and not empty.\<close>

definition flag_arg :: "string \<Rightarrow> string option \<Rightarrow> string list" where
  "flag_arg flag v = (case v of None \<Rightarrow> [] | Some t \<Rightarrow> if t = [] then [] else [flag, t])"

text \<open>The argument vector \<open>_install_printer\<close> builds, for the device uri \<open>u\<close>.\<close>

definition install_printer_cmd :: "printer \<Rightarrow> string \<Rightarrow> string list" where
  "install_printer_cmd p u =
     [''lpadmin'', ''-p'', destination p, ''-v'', u]
     @ (if enabled p then [''-E''] else [])
     @ (if shared p then [''-o'', ''printer-is-shared=true'']
        else [''-o'', ''printer-is-shared=false''])
     @ flag_arg ''-m'' (model p)
     @ flag_arg ''-D'' (info p)
     @ flag_arg ''-L'' (location p)"

text \<open>\<open>_install_printer\<close>. A missing uri cannot be passed to a program; \<open>install\<close> has failed
  before it gets here.\<close>

definition install_printer :: "'w executor \<Rightarrow> printer \<Rightarrow> 'w sys \<Rightarrow> (failure + cmd_result) \<times> 'w sys" where
  "install_printer run p s =
     (case uri p of
        None \<Rightarrow> (Inl TypeError, s)
      | Some u \<Rightarrow> (case run_command run (install_printer_cmd p u) s of (r, s') \<Rightarrow> (Inr r, s')))"

definition install_printer_options_cmd :: "printer \<Rightarrow> string list" where
  "install_printer_options_cmd p =
     [''lpadmin'', ''-p'', destination p]
     @ concat (map (\<lambda>(k, v). [''-o'', k @ ''='' @ v]) (options p))"

definition install_printer_options :: "'w executor \<Rightarrow> printer \<Rightarrow> 'w sys \<Rightarrow> cmd_result \<times> 'w sys" where
  "install_printer_options run p s = run_command run (install_printer_options_cmd p) s"

definition uninstall_printer_cmd :: "printer \<Rightarrow> string list" where
  "uninstall_printer_cmd p = [''lpadmin'', ''-x'', destination p]"

definition uninstall_printer :: "'w executor \<Rightarrow> printer \<Rightarrow> 'w sys \<Rightarrow> cmd_result \<times> 'w sys" where
  "uninstall_printer run p s = run_command run (uninstall_printer_cmd p) s"

text \<open>\<open>get_printer_cups_options\<close>: every token of the listing is \<open>name\<close> or \<open>name=value\<close>;
  a bare name is stored with the value \<open>None\<close>. \<open>store_cups_option\<close> is the body of the
  loop over the tokens.\<close>

definition store_cups_option :: "(string \<rightharpoonup> string option) \<Rightarrow> string \<Rightarrow> (string \<rightharpoonup> string option)" where
  "store_cups_option opts t =
     (case split1 CHR ''='' t of
        [k] \<Rightarrow> opts(k \<mapsto> None)
      | [k, v] \<Rightarrow> opts(k \<mapsto> Some v)
      | _ \<Rightarrow> opts)"

fun read_cups_options :: "(string \<rightharpoonup> string option) \<Rightarrow> string list \<Rightarrow> (string \<rightharpoonup> string option)" where
  "read_cups_options opts [] = opts"
| "read_cups_options opts (t # ts) = read_cups_options (store_cups_option opts t) ts"

definition parse_cups_options :: "string \<Rightarrow> failure + (string \<rightharpoonup> string option)" where
  "parse_cups_options out =
     (case shlex_split out of
        Inl e \<Rightarrow> Inl e
      | Inr ts \<Rightarrow> Inr (read_cups_options Map.empty ts))"

definition get_printer_cups_options ::
  "'w executor \<Rightarrow> printer \<Rightarrow> 'w sys \<Rightarrow> (failure + (string \<rightharpoonup> string option)) \<times> 'w sys" where
  "get_printer_cups_options run p s =
     (case run_command run [''lpoptions'', ''-p'', destination p] s of
        ((rc, out, err), s') \<Rightarrow> (parse_cups_options out, s'))"

text \<open>\<open>get_printer_specific_options\<close>: one option per line, \<open>name/label: values\<close>.\<close>

record option_info =
  current :: "string option"
  label :: string
  allowed_values :: "string list"

text \<open>The loop that finds the current value: the first value that starts with \<open>*\<close>,
  without the \<open>*\<close>.\<close>

fun current_value :: "string list \<Rightarrow> string option" where
  "current_value [] = None"
| "current_value (v # vs) =
     (if \<not> startswith v ''*'' then current_value vs else Some (drop 1 v))"

fun read_specific_options ::
  "(string \<rightharpoonup> option_info) \<Rightarrow> string list \<Rightarrow> failure + (string \<rightharpoonup> option_info)" where
  "read_specific_options opts [] = Inr opts"
| "read_specific_options opts (l # ls) =
     (case split1 CHR ''/'' l of
        [name, remaining] \<Rightarrow>
          (case split1 CHR '':'' remaining of
             [lab, remaining'] \<Rightarrow>
               (case shlex_split remaining' of
                  Inl e \<Rightarrow> Inl e
                | Inr vals \<Rightarrow>
                    read_specific_options
                      (opts(name \<mapsto> \<lparr>current = current_value vals, label = lab, allowed_values = vals\<rparr>)) ls)
           | _ \<Rightarrow> Inl ValueError)
      | _ \<Rightarrow> Inl ValueError)"

definition parse_specific_options :: "string \<Rightarrow> failure + (string \<rightharpoonup> option_info)" where
  "parse_specific_options out = read_specific_options Map.empty (splitlines out)"

definition get_printer_specific_options ::
  "'w executor \<Rightarrow> printer \<Rightarrow> 'w sys \<Rightarrow> (failure + (string \<rightharpoonup> option_info)) \<times> 'w sys" where
  "get_printer_specific_options run p s =
     (case run_command run [''lpoptions'', ''-p'', destination p, ''-l''] s of
        ((rc, out, err), s') \<Rightarrow> (parse_specific_options out, s'))"

section \<open>The checks\<close>

text \<open>The dictionary \<open>expected_cups_options\<close>, as the list of its items; \<open>mm\<close> is the make
  and model. The loop over it returns at the first key that is missing or differs, so the
  order of the keys does not change its result.\<close>

definition expected_cups_options :: "printer \<Rightarrow> string \<Rightarrow> (string \<times> string option) list" where
  "expected_cups_options p mm =
     [(''device-uri'', uri p),
      (''printer-make-and-model'', Some mm),
      (''printer-location'', location p),
      (''printer-info'', if truthy (info p) then info p else Some (destination p)),
      (''printer-is-shared'', if shared p then Some ''true'' else Some ''false'')]"

definition cups_options_match ::
  "(string \<times> string option) list \<Rightarrow> (string \<rightharpoonup> string option) \<Rightarrow> bool" where
  "cups_options_match expected cups_options =
     list_all (\<lambda>(k, v). case cups_options k of None \<Rightarrow> False | Some v' \<Rightarrow> v = v') expected"

definition check_cups_options :: "'w executor \<Rightarrow> printer \<Rightarrow> 'w sys \<Rightarrow> (failure + bool) \<times> 'w sys" where
  "check_cups_options run p s =
     (case get_make_and_model run p s of
        (Inl e, s1) \<Rightarrow> (Inl e, s1)
      | (Inr mm, s1) \<Rightarrow>
          (case get_printer_cups_options run p s1 of
             (Inl e, s2) \<Rightarrow> (Inl e, s2)
           | (Inr cups_options, s2) \<Rightarrow>
               (Inr (cups_options_match (expected_cups_options p mm) cups_options), s2)))"

definition printer_options_match ::
  "(string \<times> string) list \<Rightarrow> (string \<rightharpoonup> option_info) \<Rightarrow> bool" where
  "printer_options_match expected printer_options =
     list_all (\<lambda>(k, v). case printer_options k of None \<Rightarrow> False | Some i \<Rightarrow> current i = Some v)
       expected"

definition check_printer_options :: "'w executor \<Rightarrow> printer \<Rightarrow> 'w sys \<Rightarrow> (failure + bool) \<times> 'w sys" where
  "check_printer_options run p s =
     (case get_printer_specific_options run p s of
        (Inl e, s') \<Rightarrow> (Inl e, s')
      | (Inr printer_options, s') \<Rightarrow>
          (Inr (printer_options_match (options p) printer_options), s'))"

definition exists :: "'w executor \<Rightarrow> printer \<Rightarrow> 'w sys \<Rightarrow> bool \<times> 'w sys" where
  "exists run p s =
     (case run_command run [''lpstat'', ''-p'', destination p] s of
        ((rc, out, err), s') \<Rightarrow> (rc = 0, s'))"

section \<open>\<open>install\<close>, \<open>uninstall\<close> and \<open>main\<close>\<close>

text \<open>The triple \<open>(rc, out, err)\<close> that \<open>install\<close> and \<open>uninstall\<close> build: \<open>rc\<close> stays
  \<open>None\<close> until a command has been run.\<close>

type_synonym outcome = "int option \<times> string \<times> string"

text \<open>What follows each action in \<open>install\<close>: \<open>rc\<close> is the action's, its output and error
  text are appended on a new line, with line feeds at both ends removed.\<close>

definition append_output :: "outcome \<Rightarrow> cmd_result \<Rightarrow> outcome" where
  "append_output acc r =
     (case acc of (rc0, out, err) \<Rightarrow>
        (case r of (rc, action_out, action_err) \<Rightarrow>
           (Some rc, strip_nl (out @ [CHR 0x0A] @ action_out),
            strip_nl (err @ [CHR 0x0A] @ action_err))))"

text \<open>The first block of \<open>install\<close>: a queue that exists and whose CUPS options differ is
  removed. The options are checked only when the queue exists.\<close>

definition remove_mismatched ::
  "'w executor \<Rightarrow> printer \<Rightarrow> outcome \<Rightarrow> 'w sys \<Rightarrow> (failure + outcome) \<times> 'w sys" where
  "remove_mismatched run p acc s =
     (case exists run p s of
        (ex, s1) \<Rightarrow>
          if ex then
            (case check_cups_options run p s1 of
               (Inl e, s2) \<Rightarrow> (Inl e, s2)
             | (Inr ok, s2) \<Rightarrow>
                 if \<not> ok then
                   (case uninstall_printer run p s2 of
                      (r, s3) \<Rightarrow> (Inr (append_output acc r), s3))
                 else (Inr acc, s2))
          else (Inr acc, s1))"

text \<open>The second block: a queue that does not exist is created.\<close>

definition create_missing ::
  "'w executor \<Rightarrow> printer \<Rightarrow> outcome \<Rightarrow> 'w sys \<Rightarrow> (failure + outcome) \<times> 'w sys" where
  "create_missing run p acc s =
     (case exists run p s of
        (ex, s1) \<Rightarrow>
          if \<not> ex then
            (case install_printer run p s1 of
               (Inl e, s2) \<Rightarrow> (Inl e, s2)
             | (Inr r, s2) \<Rightarrow> (Inr (append_output acc r), s2))
          else (Inr acc, s1))"

text \<open>The third block: the desired options are set when one of them is not current.\<close>

definition apply_options ::
  "'w executor \<Rightarrow> printer \<Rightarrow> outcome \<Rightarrow> 'w sys \<Rightarrow> (failure + outcome) \<times> 'w sys" where
  "apply_options run p acc s =
     (case check_printer_options run p s of
        (Inl e, s1) \<Rightarrow> (Inl e, s1)
      | (Inr ok, s1) \<Rightarrow>
          if \<not> ok then
            (case install_printer_options run p s1 of
               (r, s2) \<Rightarrow> (Inr (append_output acc r), s2))
          else (Inr acc, s1))"

definition install :: "'w executor \<Rightarrow> printer \<Rightarrow> 'w sys \<Rightarrow> (failure + outcome) \<times> 'w sys" where
  "install run p s =
     (case uri p of
        None \<Rightarrow> (Inl ConfigurationError, s)
      | Some u \<Rightarrow>
          (case remove_mismatched run p (None, [], []) s of
             (Inl e, s1) \<Rightarrow> (Inl e, s1)
           | (Inr acc1, s1) \<Rightarrow>
               (case create_missing run p acc1 s1 of
                  (Inl e, s2) \<Rightarrow> (Inl e, s2)
                | (Inr acc2, s2) \<Rightarrow> apply_options run p acc2 s2)))"

definition uninstall :: "'w executor \<Rightarrow> printer \<Rightarrow> 'w sys \<Rightarrow> outcome \<times> 'w sys" where
  "uninstall run p s =
     (case exists run p s of
        (ex, s1) \<Rightarrow>
          if ex then
            (case uninstall_printer run p s1 of
               ((rc, out, err), s2) \<Rightarrow> ((Some rc, out, err), s2))
          else ((None, [], []), s1))"

datatype state = Present | Absent

text \<open>The \<open>result\<close> dictionary that \<open>main\<close> hands to \<open>exit_json\<close>; \<open>stdout\<close> and \<open>stderr\<close>
  are present only when the text is not empty.\<close>

record result =
  res_state :: state
  res_destination :: string
  changed :: bool
  stdout :: "string option"
  stderr :: "string option"

definition main :: "'w executor \<Rightarrow> printer \<Rightarrow> state \<Rightarrow> 'w sys \<Rightarrow> (failure + result) \<times> 'w sys" where
  "main run params st s =
     (let cups_printer = init params in
      case (case st of
              Present \<Rightarrow> install run cups_printer s
            | Absent \<Rightarrow> (case uninstall run cups_printer s of (a, s') \<Rightarrow> (Inr a, s')))
      of
        (Inl e, s') \<Rightarrow> (Inl e, s')
      | (Inr (rc, out, err), s') \<Rightarrow>
          (Inr \<lparr>res_state = st, res_destination = destination cups_printer,
                changed = (rc \<noteq> None),
                stdout = (if out \<noteq> [] then Some out else None),
                stderr = (if err \<noteq> [] then Some err else None)\<rparr>, s'))"

section \<open>A printing subsystem for concrete runs\<close>

text \<open>
  For runs on concrete inputs the printing subsystem is a table of answers: a command is
  answered by the first entry for it, and that entry is used up, so that a later issue of
  the same command gets the next entry for it. A command with no entry fails with
  status 1 and no text.
\<close>

definition replay :: "(string list \<times> cmd_result) list executor" where
  "replay cmd w =
     (case map_of w cmd of
        None \<Rightarrow> ((1, [], []), w)
      | Some r \<Rightarrow> (r, remove1 (cmd, r) w))"

definition start :: "(string list \<times> cmd_result) list \<Rightarrow> (string list \<times> cmd_result) list sys" where
  "start table = \<lparr>world = table, calls = []\<rparr>"

text \<open>The queue \<open>zebra\<close> of the module's examples, with nothing but its destination set.\<close>

definition zebra :: printer where
  "zebra = \<lparr>destination = ''zebra'', uri = None, enabled = True, shared = False,
             model = None, info = None, location = None, options = []\<rparr>"

text \<open>A driver listing with two records, in the layout \<open>lpinfo -l -m\<close> prints.\<close>

definition sample_catalog :: string where
  "sample_catalog =
     ''Model:  name = drv.ppd'' @ [CHR 0x0A] @
     ''        natural_language = en'' @ [CHR 0x0A] @
     ''        make-and-model = Zebra ZPL Label Printer'' @ [CHR 0x0A] @
     ''Model:  name = socket://host'' @ [CHR 0x0A] @
     ''        make-and-model = Generic'' @ [CHR 0x0A]"

text \<open>The queue \<open>zebra\<close> with a uri and a driver that the listing does not have.\<close>

definition zebra_unknown_driver :: printer where
  "zebra_unknown_driver = zebra\<lparr>uri := Some ''192.168.1.2'', model := Some ''nope.ppd''\<rparr>"

text \<open>The queue \<open>zebra\<close> as a raw queue with a uri, and what \<open>lpoptions -p zebra\<close> lists
  for it once it has been created; the listing shows the queue as stopped and not
  accepting jobs.\<close>

definition zebra_raw :: printer where
  "zebra_raw = zebra\<lparr>uri := Some ''192.168.1.2''\<rparr>"

definition raw_listing :: string where
  "raw_listing =
     ''device-uri=lpd://192.168.1.2/ printer-info=zebra printer-is-accepting-jobs=false '' @
     ''printer-is-shared=false printer-location printer-make-and-model='' @
     [CHR 0x27] @ ''Local Raw Printer'' @ [CHR 0x27] @ '' printer-state=5''"

definition create_zebra_raw :: "string list" where
  "create_zebra_raw =
     [''lpadmin'', ''-p'', ''zebra'', ''-v'', ''lpd://192.168.1.2/'', ''-E'',
      ''-o'', ''printer-is-shared=false'']"


text \<open>A subsystem where the queue \<open>zebra\<close> exists as \<open>raw_listing\<close> shows it.\<close>

definition stopped_queue :: "(string list \<times> cmd_result) list" where
  "stopped_queue =
     [([''lpstat'', ''-p'', ''zebra''], (0, [], [])),
      ([''lpoptions'', ''-p'', ''zebra''], (0, raw_listing, [])),
      ([''lpstat'', ''-p'', ''zebra''], (0, [], [])),
      ([''lpoptions'', ''-p'', ''zebra'', ''-l''], (0, [], []))]"

text \<open>The queue \<open>zebra\<close> with the page size \<open>A4\<close> desired, and two subsystems: one lists
  \<open>Letter\<close> as the current page size, the other \<open>A4\<close>.\<close>

definition zebra_page_size :: printer where
  "zebra_page_size = zebra\<lparr>uri := Some ''lpd://192.168.1.2/'', options := [(''PageSize'', ''A4'')]\<rparr>"

definition letter_current :: "(string list \<times> cmd_result) list" where
  "letter_current =
     [([''lpoptions'', ''-p'', ''zebra'', ''-l''], (0, ''PageSize/Page Size: *Letter A4'', [])),
      ([''lpadmin'', ''-p'', ''zebra'', ''-o'', ''PageSize=A4''], (0, ''done'', []))]"

definition a4_current :: "(string list \<times> cmd_result) list" where
  "a4_current =
     [([''lpoptions'', ''-p'', ''zebra'', ''-l''], (0, ''PageSize/Page Size: Letter *A4'', [])),
      ([''lpadmin'', ''-p'', ''zebra'', ''-o'', ''PageSize=A4''], (0, ''done'', []))]"

text \<open>A subsystem where the queue \<open>zebra\<close> exists with the location \<open>Office\<close>, is gone
  after its removal and is then created again.\<close>

definition office_listing :: string where
  "office_listing =
     ''device-uri=lpd://192.168.1.2/ printer-info=zebra printer-is-shared=false '' @
     ''printer-location=Office printer-make-and-model='' @
     [CHR 0x27] @ ''Local Raw Printer'' @ [CHR 0x27]"

definition office_queue :: "(string list \<times> cmd_result) list" where
  "office_queue =
     [([''lpstat'', ''-p'', ''zebra''], (0, [], [])),
      ([''lpoptions'', ''-p'', ''zebra''], (0, office_listing, [])),
      ([''lpadmin'', ''-x'', ''zebra''], (0, [], [])),
      ([''lpstat'', ''-p'', ''zebra''], (1, [], [])),
      (create_zebra_raw, (0, [], [])),
      ([''lpoptions'', ''-p'', ''zebra'', ''-l''], (0, [], []))]"

section \<open>A printing subsystem that applies the commands\<close>
































text \<open>The definitions a concrete run unfolds.\<close>

lemmas lex_defs = shlex_split_def lex_whitespace_def lex_quote_def lex_escape_def emit_def
  last_token_def escaped_def

lemmas str_defs = startswith_def isspace_def strip_chars_def strip_def strip_nl_def split1_def
  splitlines_def

lemmas run_defs = main_def init_def install_def uninstall_def remove_mismatched_def
  create_missing_def apply_options_def append_output_def exists_def check_cups_options_def
  check_printer_options_def cups_options_match_def printer_options_match_def
  expected_cups_options_def truthy_def get_make_and_model_def get_installed_drivers_def
  parse_drivers_def re_split_model_def get_printer_cups_options_def parse_cups_options_def
  store_cups_option_def
  get_printer_specific_options_def parse_specific_options_def install_printer_def
  install_printer_cmd_def flag_arg_def install_printer_options_def
  install_printer_options_cmd_def uninstall_printer_def uninstall_printer_cmd_def
  run_command_def replay_def start_def Let_def

lemmas world_defs = zebra_def zebra_raw_def raw_listing_def create_zebra_raw_def


section \<open>Which commands each step issues\<close>

lemma run_command_calls:
  "run_command run cmd s = (r, s') \<Longrightarrow> calls s' = calls s @ [cmd]"
  by (auto simp: run_command_def split: prod.splits)

lemma exists_calls:
  "exists run p s = (ex, s') \<Longrightarrow> calls s' = calls s @ [[''lpstat'', ''-p'', destination p]]"
  by (auto simp: exists_def split: prod.splits dest: run_command_calls)

lemma uninstall_printer_calls:
  "uninstall_printer run p s = (r, s') \<Longrightarrow> calls s' = calls s @ [[''lpadmin'', ''-x'', destination p]]"
  by (auto simp: uninstall_printer_def uninstall_printer_cmd_def dest: run_command_calls)

lemma install_printer_calls:
  "uri p = Some u \<Longrightarrow> install_printer run p s = (r, s') \<Longrightarrow>
     calls s' = calls s @ [install_printer_cmd p u]"
  by (auto simp: install_printer_def split: prod.splits dest: run_command_calls)

lemma init_destination: "destination (init params) = destination params"
  by (simp add: init_def split: option.splits)

section \<open>Removing a queue\<close>

text \<open>
  C8. In the absent state the module always returns a result. When the existence query
  reports no queue, the query is the only command issued and the result has
  \<open>changed = False\<close> and neither output nor error text; when the queue exists, the
  removal command is the one command issued after the query and \<open>changed = True\<close>.
  So \<open>changed\<close> is true exactly when a removal was issued.
\<close>

theorem absent_changed_iff_removed:
  "\<exists>r s'. main run params Absent s = (Inr r, s')
     \<and> res_state r = Absent \<and> res_destination r = destination params
     \<and> changed r = fst (exists run (init params) s)
     \<and> (if fst (exists run (init params) s)
        then calls s' = calls s @ [[''lpstat'', ''-p'', destination params],
                                    [''lpadmin'', ''-x'', destination params]]
        else calls s' = calls s @ [[''lpstat'', ''-p'', destination params]]
             \<and> stdout r = None \<and> stderr r = None)"
proof (cases "exists run (init params) s")
  case (Pair ex s1)
  note c1 = exists_calls [OF Pair]
  show ?thesis
  proof (cases ex)
    case False
    with Pair c1 show ?thesis
      by (simp add: main_def uninstall_def Let_def init_destination)
  next
    case True
    obtain rc out err s2 where u: "uninstall_printer run (init params) s1 = ((rc, out, err), s2)"
      by (metis prod_cases3 surj_pair)
    from uninstall_printer_calls [OF u] c1 True Pair u show ?thesis
      by (simp add: main_def uninstall_def Let_def init_destination)
  qed
qed

theorem absent_changed_iff_removed_witness:
  "fst (main replay zebra Absent (start [([''lpstat'', ''-p'', ''zebra''], (0, [], []))]))
     = Inr \<lparr>res_state = Absent, res_destination = ''zebra'', changed = True,
            stdout = None, stderr = None\<rparr>
   \<and> calls (snd (main replay zebra Absent (start [([''lpstat'', ''-p'', ''zebra''], (0, [], []))])))
     = [[''lpstat'', ''-p'', ''zebra''], [''lpadmin'', ''-x'', ''zebra'']]
   \<and> fst (main replay zebra Absent (start []))
     = Inr \<lparr>res_state = Absent, res_destination = ''zebra'', changed = False,
            stdout = None, stderr = None\<rparr>
   \<and> calls (snd (main replay zebra Absent (start []))) = [[''lpstat'', ''-p'', ''zebra'']]"
  using absent_changed_iff_removed [of replay zebra "start [([''lpstat'', ''-p'', ''zebra''], (0, [], []))]"]
    absent_changed_iff_removed [of replay zebra "start []"]
  by (simp add: main_def uninstall_def exists_def uninstall_printer_def uninstall_printer_cmd_def
      run_command_def replay_def start_def zebra_def init_def Let_def)

section \<open>A missing uri\<close>

text \<open>
  C4. In the present state a descriptor without a uri fails with the configuration error
  (\<open>'uri' is required for present state\<close>) and leaves the system state as it was: no
  command at all has been issued, so no mutating one.
\<close>

theorem present_without_uri_fails:
  "uri params = None \<Longrightarrow> main run params Present s = (Inl ConfigurationError, s)"
  by (simp add: main_def install_def init_def Let_def)

theorem present_without_uri_fails_witness:
  "uri zebra = None
   \<and> main replay zebra Present (start [([''lpstat'', ''-p'', ''zebra''], (0, [], []))])
     = (Inl ConfigurationError, start [([''lpstat'', ''-p'', ''zebra''], (0, [], []))])
   \<and> calls (start [([''lpstat'', ''-p'', ''zebra''], (0, [], []))]) = []"
  using present_without_uri_fails [of zebra replay "start [([''lpstat'', ''-p'', ''zebra''], (0, [], []))]"]
  by (simp add: zebra_def start_def)

section \<open>The device uri\<close>

text \<open>
  C6, as the code has it. A uri that is not empty and has no \<open>://\<close> becomes
  \<open>lpd://<uri>/\<close>; a uri that contains \<open>://\<close>, and the empty uri, stay as they are.
  The resulting uri is the one after \<open>-v\<close> in the create command and the expected value
  of \<open>device-uri\<close> in the comparison of the CUPS options.
\<close>

theorem lpd_uri_synthesized:
  "uri params = Some u \<Longrightarrow>
   u' = (if u = [] \<or> contains ''://'' u then u else ''lpd://'' @ u @ ''/'') \<Longrightarrow>
     uri (init params) = Some u'
   \<and> calls (snd (install_printer run (init params) s)) = calls s @ [install_printer_cmd (init params) u']
   \<and> take 5 (install_printer_cmd (init params) u') = [''lpadmin'', ''-p'', destination params, ''-v'', u']
   \<and> map_of (expected_cups_options (init params) mm) ''device-uri'' = Some (Some u')"
proof -
  assume a: "uri params = Some u"
    and b: "u' = (if u = [] \<or> contains ''://'' u then u else ''lpd://'' @ u @ ''/'')"
  have u: "uri (init params) = Some u'"
    using a b by (simp add: init_def)
  have c: "calls (snd (install_printer run (init params) s))
             = calls s @ [install_printer_cmd (init params) u']"
    using install_printer_calls [OF u, of run s] by (metis prod.collapse)
  show ?thesis
    using u c by (simp add: install_printer_cmd_def expected_cups_options_def init_destination)
qed

theorem lpd_uri_synthesized_witness:
  "uri (zebra\<lparr>uri := Some ''192.168.1.2''\<rparr>) = Some ''192.168.1.2''
   \<and> uri (init (zebra\<lparr>uri := Some ''192.168.1.2''\<rparr>)) = Some ''lpd://192.168.1.2/''
   \<and> calls (snd (install_printer replay (init (zebra\<lparr>uri := Some ''192.168.1.2''\<rparr>)) (start [])))
      = [[''lpadmin'', ''-p'', ''zebra'', ''-v'', ''lpd://192.168.1.2/'', ''-E'', ''-o'',
          ''printer-is-shared=false'']]"
  using lpd_uri_synthesized [of "zebra\<lparr>uri := Some ''192.168.1.2''\<rparr>" "''192.168.1.2''"
      "''lpd://192.168.1.2/''" replay "start []" "''Local Raw Printer''"]
  by (simp add: zebra_def startswith_def start_def install_printer_cmd_def flag_arg_def init_def)

text \<open>
  C6 as stated fails for the empty uri: it has no \<open>://\<close>, and \<open>__init__\<close> leaves it empty
  (the test \<open>self.uri and ...\<close> is false for it), so the create command gets an empty
  device uri, not \<open>lpd:///\<close>. The subsystem here has no queue: both existence queries
  fail, the queue is created, and the option listing is empty.
\<close>

theorem empty_uri_counterexample:
  "\<not> contains ''://'' []
   \<and> uri (init (zebra\<lparr>uri := Some []\<rparr>)) = Some []
   \<and> calls (snd (main replay (zebra\<lparr>uri := Some []\<rparr>) Present (start [])))
      = [[''lpstat'', ''-p'', ''zebra''], [''lpstat'', ''-p'', ''zebra''],
         [''lpadmin'', ''-p'', ''zebra'', ''-v'', [], ''-E'', ''-o'', ''printer-is-shared=false''],
         [''lpoptions'', ''-p'', ''zebra'', ''-l'']]"
  by (simp add: zebra_def run_defs str_defs)

section \<open>The listing of the driver-specific options\<close>

lemma current_value_filter:
  "current_value vals =
     (case filter (\<lambda>v. startswith v ''*'') vals of [] \<Rightarrow> None | v # _ \<Rightarrow> Some (drop 1 v))"
  by (induction vals) auto

lemma page_size_line:
  "parse_specific_options ''PageSize/Page Size: *Letter A4'' =
     Inr [''PageSize'' \<mapsto> \<lparr>current = Some ''Letter'', label = ''Page Size'',
                            allowed_values = [''*Letter'', ''A4'']\<rparr>]"
  by (simp add: parse_specific_options_def splitlines_def split1_def lex_defs startswith_def)

text \<open>
  C2, as the code has it. When the listing is the line \<open>PageSize/Page Size: *Letter A4\<close>,
  \<open>get_printer_specific_options\<close> returns the one entry \<open>PageSize\<close> with the current value
  \<open>Letter\<close>, the label \<open>Page Size\<close> and the values \<open>*Letter\<close> and \<open>A4\<close>: the \<open>*\<close> is
  removed from the current value only, the list of values keeps the tokens as they were
  read. For any list of tokens the current value is the first token that starts with
  \<open>*\<close>, without the \<open>*\<close>, and \<open>None\<close> when no token starts with \<open>*\<close>.
\<close>

theorem current_value_star_stripped:
  "run [''lpoptions'', ''-p'', destination p, ''-l''] (world s)
      = ((rc, ''PageSize/Page Size: *Letter A4'', err), w') \<Longrightarrow>
     fst (get_printer_specific_options run p s) =
       Inr [''PageSize'' \<mapsto> \<lparr>current = Some ''Letter'', label = ''Page Size'',
                              allowed_values = [''*Letter'', ''A4'']\<rparr>]
   \<and> current_value vals =
       (case filter (\<lambda>v. startswith v ''*'') vals of [] \<Rightarrow> None | v # _ \<Rightarrow> Some (drop 1 v))"
  by (simp add: get_printer_specific_options_def run_command_def page_size_line
      current_value_filter)

theorem current_value_star_stripped_witness:
  "replay [''lpoptions'', ''-p'', destination zebra, ''-l'']
      (world (start [([''lpoptions'', ''-p'', ''zebra'', ''-l''],
                      (0, ''PageSize/Page Size: *Letter A4'', []))]))
      = ((0, ''PageSize/Page Size: *Letter A4'', []), [])
   \<and> fst (get_printer_specific_options replay zebra
        (start [([''lpoptions'', ''-p'', ''zebra'', ''-l''],
                 (0, ''PageSize/Page Size: *Letter A4'', []))])) =
       Inr [''PageSize'' \<mapsto> \<lparr>current = Some ''Letter'', label = ''Page Size'',
                              allowed_values = [''*Letter'', ''A4'']\<rparr>]
   \<and> current_value [''Letter'', ''A4''] = None
   \<and> current_value [''Letter'', ''*A4''] = Some ''A4''"
proof -
  have h: "replay [''lpoptions'', ''-p'', destination zebra, ''-l'']
      (world (start [([''lpoptions'', ''-p'', ''zebra'', ''-l''],
                      (0, ''PageSize/Page Size: *Letter A4'', []))]))
      = ((0, ''PageSize/Page Size: *Letter A4'', []), [])"
    by (simp add: replay_def start_def zebra_def)
  have v: "current_value [''Letter'', ''A4''] = None \<and> current_value [''Letter'', ''*A4''] = Some ''A4''"
    by (simp add: startswith_def)
  from current_value_star_stripped
      [where run = replay and p = zebra and vals = "[]"
         and s = "start [([''lpoptions'', ''-p'', ''zebra'', ''-l''],
                          (0, ''PageSize/Page Size: *Letter A4'', []))]", OF h] h v
  show ?thesis
    by blast
qed

text \<open>
  C2 as stated fails: the stored values are not \<open>Letter\<close> and \<open>A4\<close>.
\<close>

theorem star_in_values_counterexample:
  "parse_specific_options ''PageSize/Page Size: *Letter A4'' \<noteq>
     Inr [''PageSize'' \<mapsto> \<lparr>current = Some ''Letter'', label = ''Page Size'',
                            allowed_values = [''Letter'', ''A4'']\<rparr>]"
  unfolding page_size_line
  by (auto dest!: fun_cong [where x = "''PageSize''"])

section \<open>The keys of the driver catalog\<close>

text \<open>Every key of a parsed catalog is the \<open>name\<close> of its record, and either has a
  \<open>://\<close> or starts with the \<open>/\<close> that was put in front of a name without one.\<close>

lemma read_drivers_keys:
  "read_drivers drivers ds = Inr m \<Longrightarrow>
   (\<And>k r. drivers k = Some r \<Longrightarrow>
      r ''name'' = Some k
      \<and> (contains ''://'' k \<or> (\<exists>n. k = ''/'' @ n \<and> \<not> contains ''://'' n))) \<Longrightarrow>
   m k = Some r \<Longrightarrow>
     r ''name'' = Some k
     \<and> (contains ''://'' k \<or> (\<exists>n. k = ''/'' @ n \<and> \<not> contains ''://'' n))"
proof (induction ds arbitrary: drivers)
  case Nil
  then show ?case by simp
next
  case (Cons d ds)
  show ?case
  proof (cases "strip d = []")
    case True
    with Cons.prems(1) have "read_drivers drivers ds = Inr m" by simp
    from this Cons.prems(2) Cons.prems(3) show ?thesis by (rule Cons.IH)
  next
    case False
    with Cons.prems(1) obtain cur n where
      c: "read_record Map.empty (splitlines d) = Inr cur" and n: "cur ''name'' = Some n"
      by (auto split: sum.splits option.splits)
    let ?key = "if contains ''://'' n then n else ''/'' @ n"
    have "cur(''name'' \<mapsto> n) = cur"
      using n by (simp add: map_upd_triv)
    with Cons.prems(1) False c n
    have r: "read_drivers (drivers(?key \<mapsto> cur(''name'' \<mapsto> ?key))) ds = Inr m"
      by (simp add: Let_def split: if_splits)
    have "r' ''name'' = Some k'
        \<and> (contains ''://'' k' \<or> (\<exists>n. k' = ''/'' @ n \<and> \<not> contains ''://'' n))" if "(drivers(?key \<mapsto> cur(''name'' \<mapsto> ?key))) k' = Some r'" for k' r'
    proof (cases "k' = ?key")
      case True
      with that have "r' = cur(''name'' \<mapsto> ?key)" by simp
      with True show ?thesis
        by auto
    next
      case False
      with that have "drivers k' = Some r'" by simp
      then show ?thesis by (rule Cons.prems(2))
    qed
    from r this Cons.prems(3) show ?thesis by (rule Cons.IH)
  qed
qed

lemma parse_drivers_keys:
  "parse_drivers out = Inr m \<Longrightarrow> m k = Some r \<Longrightarrow>
     r ''name'' = Some k
     \<and> (contains ''://'' k \<or> (\<exists>n. k = ''/'' @ n \<and> \<not> contains ''://'' n))"
  by (rule read_drivers_keys [of Map.empty "re_split_model out" m k r])
    (simp_all add: parse_drivers_def)

text \<open>
  C7. A record that is not blank, whose lines all have an \<open>=\<close> and which has a \<open>name\<close>,
  is stored in the catalog under its name with \<open>/\<close> put in front exactly when the name
  has no \<open>://\<close>, and under the name as it is otherwise; the stored record carries the key
  as its \<open>name\<close>. So every key of a catalog that has been parsed is the \<open>name\<close> of
  its record and either has a \<open>://\<close> or starts with the added \<open>/\<close>. The record
  \<open>name=drv.ppd\<close> gets the key \<open>/drv.ppd\<close>, the record \<open>name=socket://host\<close> gets the
  key \<open>socket://host\<close>.
\<close>

theorem catalog_key_rule:
  "(strip d \<noteq> [] \<and> read_record Map.empty (splitlines d) = Inr r \<and> r ''name'' = Some n \<longrightarrow>
      read_drivers drivers (d # ds) =
        read_drivers
          (drivers((if contains ''://'' n then n else ''/'' @ n)
             \<mapsto> r(''name'' \<mapsto> (if contains ''://'' n then n else ''/'' @ n)))) ds)
   \<and> (parse_drivers out = Inr m \<and> m k = Some r' \<longrightarrow>
        r' ''name'' = Some k
        \<and> (contains ''://'' k \<or> (\<exists>n'. k = ''/'' @ n' \<and> \<not> contains ''://'' n')))
   \<and> parse_drivers ''Model: name=drv.ppd'' = Inr [''/drv.ppd'' \<mapsto> [''name'' \<mapsto> ''/drv.ppd'']]
   \<and> parse_drivers ''Model: name=socket://host''
       = Inr [''socket://host'' \<mapsto> [''name'' \<mapsto> ''socket://host'']]"
proof -
  have a: "strip d \<noteq> [] \<and> read_record Map.empty (splitlines d) = Inr r \<and> r ''name'' = Some n \<longrightarrow>
      read_drivers drivers (d # ds) =
        read_drivers
          (drivers((if contains ''://'' n then n else ''/'' @ n)
             \<mapsto> r(''name'' \<mapsto> (if contains ''://'' n then n else ''/'' @ n)))) ds"
  proof
    assume h: "strip d \<noteq> [] \<and> read_record Map.empty (splitlines d) = Inr r \<and> r ''name'' = Some n"
    then have "r(''name'' \<mapsto> n) = r"
      by (simp add: map_upd_triv)
    with h show "read_drivers drivers (d # ds) =
        read_drivers
          (drivers((if contains ''://'' n then n else ''/'' @ n)
             \<mapsto> r(''name'' \<mapsto> (if contains ''://'' n then n else ''/'' @ n)))) ds"
      by (simp add: Let_def)
  qed
  have b: "parse_drivers out = Inr m \<and> m k = Some r' \<longrightarrow>
        r' ''name'' = Some k
        \<and> (contains ''://'' k \<or> (\<exists>n'. k = ''/'' @ n' \<and> \<not> contains ''://'' n'))"
    using parse_drivers_keys [of out m k r'] by blast
  have c: "parse_drivers ''Model: name=drv.ppd'' = Inr [''/drv.ppd'' \<mapsto> [''name'' \<mapsto> ''/drv.ppd'']]"
    by (simp add: parse_drivers_def re_split_model_def str_defs)
  have d: "parse_drivers ''Model: name=socket://host''
       = Inr [''socket://host'' \<mapsto> [''name'' \<mapsto> ''socket://host'']]"
    by (simp add: parse_drivers_def re_split_model_def str_defs)
  from a b c d show ?thesis
    by blast
qed

theorem catalog_key_rule_witness:
  "strip ''  name = drv.ppd'' \<noteq> []
   \<and> read_record Map.empty (splitlines ''  name = drv.ppd'') = Inr [''name'' \<mapsto> ''drv.ppd'']
   \<and> [''name'' \<mapsto> ''drv.ppd''] ''name'' = Some ''drv.ppd''
   \<and> read_drivers Map.empty [''  name = drv.ppd'']
       = Inr [''/drv.ppd'' \<mapsto> [''name'' \<mapsto> ''/drv.ppd'']]"
proof -
  have h: "strip ''  name = drv.ppd'' \<noteq> []
   \<and> read_record Map.empty (splitlines ''  name = drv.ppd'') = Inr [''name'' \<mapsto> ''drv.ppd'']
   \<and> [''name'' \<mapsto> ''drv.ppd''] ''name'' = Some ''drv.ppd''"
    by (simp add: str_defs)
  have "read_drivers Map.empty [''  name = drv.ppd'']
          = read_drivers [''/drv.ppd'' \<mapsto> [''name'' \<mapsto> ''/drv.ppd'']] []"
    using catalog_key_rule [where d = "''  name = drv.ppd''" and r = "[''name'' \<mapsto> ''drv.ppd'']"
        and n = "''drv.ppd''" and drivers = Map.empty and ds = "[]"] h
    by (simp add: startswith_def)
  with h show ?thesis by simp
qed

section \<open>A driver that the catalog does not have\<close>

lemma sample_catalog_keys:
  "(case parse_drivers sample_catalog of
      Inl e \<Rightarrow> None
    | Inr d \<Rightarrow> Some (map (\<lambda>k. map_option (\<lambda>r. r ''make-and-model'') (d k))
                       [''/drv.ppd'', ''socket://host'', ''drv.ppd'', ''nope.ppd'']))
   = Some [Some (Some ''Zebra ZPL Label Printer''), Some (Some ''Generic''), None, None]"
  by (simp add: sample_catalog_def parse_drivers_def re_split_model_def str_defs)

lemma init_model: "model (init params) = model params"
  by (simp add: init_def split: option.splits)

lemma init_uri_Some: "uri params = Some u \<Longrightarrow> \<exists>u'. uri (init params) = Some u'"
  by (simp add: init_def)

lemma get_installed_drivers_calls:
  "get_installed_drivers run s = (r, s') \<Longrightarrow> calls s' = calls s @ [[''lpinfo'', ''-l'', ''-m'']]"
  by (auto simp: get_installed_drivers_def split: prod.splits dest: run_command_calls)

text \<open>
  C1, as the code has it. In the present state, with a uri, a model that is not empty and
  a queue that the existence query reports as existing, a model that is not a key of the
  catalog parsed from the driver listing makes the module fail with the driver error
  (\<open>unable to determine printer make and model\<close>). The existence query and the driver
  listing are the only commands issued: no mutating command.
\<close>

theorem unknown_driver_fails:
  assumes "uri params = Some u" and "model params = Some m" and "m \<noteq> []"
    and "exists run (init params) s = (True, s1)"
    and "get_installed_drivers run s1 = (Inr drivers, s2)"
    and "drivers m = None"
  shows "main run params Present s = (Inl DriverNotFoundError, s2)
     \<and> calls s2 = calls s @ [[''lpstat'', ''-p'', destination params], [''lpinfo'', ''-l'', ''-m'']]
     \<and> filter mutating (calls s2) = filter mutating (calls s)"
proof -
  obtain u' where u: "uri (init params) = Some u'"
    using init_uri_Some [OF assms(1)] by blast
  have mm: "get_make_and_model run (init params) s1 = (Inl DriverNotFoundError, s2)"
    using assms by (simp add: get_make_and_model_def init_model)
  have r: "main run params Present s = (Inl DriverNotFoundError, s2)"
    using u mm assms(4)
    by (simp add: main_def install_def remove_mismatched_def check_cups_options_def Let_def)
  have c: "calls s2 = calls s @ [[''lpstat'', ''-p'', destination params], [''lpinfo'', ''-l'', ''-m'']]"
    using exists_calls [OF assms(4)] get_installed_drivers_calls [OF assms(5)]
    by (simp add: init_destination)
  show ?thesis
    using r c by (simp add: mutating_def)
qed

theorem unknown_driver_fails_witness:
  "uri zebra_unknown_driver = Some ''192.168.1.2''
   \<and> model zebra_unknown_driver = Some ''nope.ppd''
   \<and> fst (exists replay (init zebra_unknown_driver)
        (start [([''lpstat'', ''-p'', ''zebra''], (0, [], [])),
                ([''lpinfo'', ''-l'', ''-m''], (0, sample_catalog, []))]))
   \<and> main replay zebra_unknown_driver Present
        (start [([''lpstat'', ''-p'', ''zebra''], (0, [], [])),
                ([''lpinfo'', ''-l'', ''-m''], (0, sample_catalog, []))])
      = (Inl DriverNotFoundError,
         \<lparr>world = [], calls = [[''lpstat'', ''-p'', ''zebra''], [''lpinfo'', ''-l'', ''-m'']]\<rparr>)"
proof -
  let ?s = "start [([''lpstat'', ''-p'', ''zebra''], (0, [], [])),
                   ([''lpinfo'', ''-l'', ''-m''], (0, sample_catalog, []))]"
  let ?s1 = "\<lparr>world = [([''lpinfo'', ''-l'', ''-m''], (0::int, sample_catalog, []::string))],
              calls = [[''lpstat'', ''-p'', ''zebra'']]\<rparr>"
  let ?s2 = "\<lparr>world = []::(string list \<times> cmd_result) list,
              calls = [[''lpstat'', ''-p'', ''zebra''], [''lpinfo'', ''-l'', ''-m'']]\<rparr>"
  have a: "uri zebra_unknown_driver = Some ''192.168.1.2''"
    and b: "model zebra_unknown_driver = Some ''nope.ppd''"
    by (simp_all add: zebra_unknown_driver_def zebra_def)
  have c: "exists replay (init zebra_unknown_driver) ?s = (True, ?s1)"
    by (simp add: exists_def run_command_def replay_def start_def init_destination
        zebra_unknown_driver_def zebra_def)
  obtain drivers where d: "parse_drivers sample_catalog = Inr drivers"
    and e: "drivers ''nope.ppd'' = None"
    using sample_catalog_keys by (auto split: sum.splits)
  have f: "get_installed_drivers replay ?s1 = (Inr drivers, ?s2)"
    using d by (simp add: get_installed_drivers_def run_command_def replay_def)
  from unknown_driver_fails [OF a b _ c f e] a b c show ?thesis
    by (simp add: zebra_unknown_driver_def zebra_def)
qed

text \<open>
  C1 as stated fails when the queue does not exist: \<open>install\<close> checks the CUPS options,
  and with them the driver, only for a queue that exists. Here the driver listing of the
  subsystem has no \<open>nope.ppd\<close>, the existence query fails, and the module creates the
  queue with \<open>-m nope.ppd\<close> and reports \<open>changed\<close>; the driver listing is never asked
  for. It also fails for the empty model, which is no key of the catalog either:
  \<open>_get_make_and_model\<close> takes it for a raw queue, and on the existing raw queue the module
  returns \<open>changed = False\<close>.
\<close>

theorem unknown_driver_created_counterexample:
  "model zebra_unknown_driver = Some ''nope.ppd''
   \<and> (case fst (get_installed_drivers replay
                  (start [([''lpinfo'', ''-l'', ''-m''], (0, sample_catalog, []))])) of
        Inl e \<Rightarrow> False
      | Inr drivers \<Rightarrow> drivers ''nope.ppd'' = None)
   \<and> \<not> fst (exists replay (init zebra_unknown_driver)
            (start [([''lpinfo'', ''-l'', ''-m''], (0, sample_catalog, []))]))
   \<and> main replay zebra_unknown_driver Present
        (start [([''lpinfo'', ''-l'', ''-m''], (0, sample_catalog, []))])
      = (Inr \<lparr>res_state = Present, res_destination = ''zebra'', changed = True,
               stdout = None, stderr = None\<rparr>,
         \<lparr>world = [([''lpinfo'', ''-l'', ''-m''], (0, sample_catalog, []))],
            calls = [[''lpstat'', ''-p'', ''zebra''], [''lpstat'', ''-p'', ''zebra''],
                     [''lpadmin'', ''-p'', ''zebra'', ''-v'', ''lpd://192.168.1.2/'', ''-E'',
                      ''-o'', ''printer-is-shared=false'', ''-m'', ''nope.ppd''],
                     [''lpoptions'', ''-p'', ''zebra'', ''-l'']]\<rparr>)
   \<and> (case fst (get_installed_drivers replay
                  (start (stopped_queue @ [([''lpinfo'', ''-l'', ''-m''], (0, sample_catalog, []))]))) of
        Inl e \<Rightarrow> False
      | Inr drivers \<Rightarrow> drivers [] = None)
   \<and> fst (main replay (zebra_raw\<lparr>model := Some []\<rparr>) Present
        (start (stopped_queue @ [([''lpinfo'', ''-l'', ''-m''], (0, sample_catalog, []))])))
      = Inr \<lparr>res_state = Present, res_destination = ''zebra'', changed = False,
               stdout = None, stderr = None\<rparr>"
proof -
  have "case parse_drivers sample_catalog of
          Inl e \<Rightarrow> False | Inr drivers \<Rightarrow> drivers ''nope.ppd'' = None \<and> drivers [] = None"
    by (simp add: sample_catalog_def parse_drivers_def re_split_model_def str_defs)
  then show ?thesis
    by (simp add: zebra_unknown_driver_def world_defs stopped_queue_def run_defs str_defs lex_defs
        split: sum.splits)
qed

section \<open>Mutating commands and the outcome\<close>

lemma get_printer_specific_options_calls:
  "get_printer_specific_options run p s = (r, s') \<Longrightarrow>
     calls s' = calls s @ [[''lpoptions'', ''-p'', destination p, ''-l'']]"
  by (auto simp: get_printer_specific_options_def split: prod.splits dest: run_command_calls)

lemma get_printer_cups_options_calls:
  "get_printer_cups_options run p s = (r, s') \<Longrightarrow>
     calls s' = calls s @ [[''lpoptions'', ''-p'', destination p]]"
  by (auto simp: get_printer_cups_options_def split: prod.splits dest: run_command_calls)

lemma exists_mutations: "exists run p s = (ex, s') \<Longrightarrow> mutations s' = mutations s"
  by (auto simp: mutations_def mutating_def dest: exists_calls)

lemma get_make_and_model_mutations:
  "get_make_and_model run p s = (r, s') \<Longrightarrow> mutations s' = mutations s"
  by (auto simp: get_make_and_model_def mutations_def mutating_def
      split: option.splits if_splits prod.splits sum.splits dest!: get_installed_drivers_calls)

lemma check_cups_options_mutations:
  "check_cups_options run p s = (r, s') \<Longrightarrow> mutations s' = mutations s"
  by (auto simp: check_cups_options_def mutations_def mutating_def
      split: prod.splits sum.splits
      dest!: get_make_and_model_mutations get_printer_cups_options_calls)

lemma check_printer_options_calls:
  "check_printer_options run p s = (r, s') \<Longrightarrow>
     calls s' = calls s @ [[''lpoptions'', ''-p'', destination p, ''-l'']]"
  by (auto simp: check_printer_options_def split: prod.splits sum.splits
      dest: get_printer_specific_options_calls)

lemma check_printer_options_mutations:
  "check_printer_options run p s = (r, s') \<Longrightarrow> mutations s' = mutations s"
  by (auto simp: mutations_def mutating_def dest: check_printer_options_calls)

lemma install_converged:
  assumes "uri p = Some u"
    and "exists run p s = (True, s1)"
    and "check_cups_options run p s1 = (Inr True, s2)"
    and "exists run p s2 = (True, s3)"
    and "check_printer_options run p s3 = (Inr True, s4)"
  shows "install run p s = (Inr (None, [], []), s4) \<and> mutations s4 = mutations s"
  using assms exists_mutations [OF assms(2)] check_cups_options_mutations [OF assms(3)]
    exists_mutations [OF assms(4)] check_printer_options_mutations [OF assms(5)]
  by (simp add: install_def remove_mismatched_def create_missing_def apply_options_def)


lemma uninstall_printer_mutations:
  "uninstall_printer run p s = (r, s') \<Longrightarrow>
     mutations s' = mutations s @ [[''lpadmin'', ''-x'', destination p]]"
  by (auto simp: mutations_def mutating_def dest: uninstall_printer_calls)

lemma install_printer_Inr:
  "install_printer run p s = (Inr r, s') \<Longrightarrow> \<exists>u. uri p = Some u"
  by (auto simp: install_printer_def split: option.splits)

lemma install_printer_mutations:
  "install_printer run p s = (Inr r, s') \<Longrightarrow> length (mutations s') = Suc (length (mutations s))"
  by (auto simp: install_printer_def run_command_def mutations_def mutating_def
      install_printer_cmd_def split: option.splits prod.splits)

lemma install_printer_options_calls:
  "install_printer_options run p s = (r, s') \<Longrightarrow>
     calls s' = calls s @ [install_printer_options_cmd p]"
  by (auto simp: install_printer_options_def dest: run_command_calls)

lemma install_printer_options_mutations:
  "install_printer_options run p s = (r, s') \<Longrightarrow>
     length (mutations s') = Suc (length (mutations s))"
  by (auto simp: mutations_def mutating_def install_printer_options_cmd_def
      dest!: install_printer_options_calls)

lemma append_output_rc: "fst (append_output acc r) \<noteq> None"
  by (simp add: append_output_def split: prod.splits)

text \<open>Each block of \<open>install\<close> either leaves the outcome as it was and issues no mutating
  command, or issues one and sets \<open>rc\<close>.\<close>

lemma remove_mismatched_step:
  "remove_mismatched run p acc s = (Inr acc', s') \<Longrightarrow>
     (acc' = acc \<and> mutations s' = mutations s)
   \<or> (fst acc' \<noteq> None \<and> length (mutations s') = Suc (length (mutations s)))"
  by (auto simp: remove_mismatched_def append_output_rc
      split: prod.splits if_splits sum.splits
      dest!: exists_mutations check_cups_options_mutations uninstall_printer_mutations)

lemma create_missing_step:
  "create_missing run p acc s = (Inr acc', s') \<Longrightarrow>
     (acc' = acc \<and> mutations s' = mutations s)
   \<or> (fst acc' \<noteq> None \<and> length (mutations s') = Suc (length (mutations s)))"
  by (auto simp: create_missing_def append_output_rc
      split: prod.splits if_splits sum.splits
      dest!: exists_mutations install_printer_mutations)

lemma apply_options_step:
  "apply_options run p acc s = (Inr acc', s') \<Longrightarrow>
     (acc' = acc \<and> mutations s' = mutations s)
   \<or> (fst acc' \<noteq> None \<and> length (mutations s') = Suc (length (mutations s)))"
  by (auto simp: apply_options_def append_output_rc
      split: prod.splits if_splits sum.splits
      dest!: check_printer_options_mutations install_printer_options_mutations)

lemma install_rc_iff_mutation:
  assumes "install run p s = (Inr (rc, out, err), s')"
  shows "rc \<noteq> None \<longleftrightarrow> length (mutations s) < length (mutations s')"
proof -
  from assms obtain acc1 s1 acc2 s2 where
    a: "remove_mismatched run p (None, [], []) s = (Inr acc1, s1)"
    and b: "create_missing run p acc1 s1 = (Inr acc2, s2)"
    and c: "apply_options run p acc2 s2 = (Inr (rc, out, err), s')"
    by (auto simp: install_def split: option.splits prod.splits sum.splits)
  from remove_mismatched_step [OF a] create_missing_step [OF b] apply_options_step [OF c]
  show ?thesis
    by auto
qed

lemma main_changed_iff_mutation:
  assumes "main run params Present s = (Inr r, s')"
  shows "changed r \<longleftrightarrow> length (mutations s) < length (mutations s')"
proof -
  from assms obtain rc out err where
    i: "install run (init params) s = (Inr (rc, out, err), s')" and c: "changed r = (rc \<noteq> None)"
    by (auto simp: main_def Let_def split: prod.splits sum.splits)
  from install_rc_iff_mutation [OF i] c show ?thesis
    by simp
qed


lemma split1_pair:
  "split1 c l = [a, b] \<Longrightarrow> c \<notin> set a"
  by (auto simp: split1_def split: if_splits dest: set_takeWhileD)

lemma read_specific_options_names:
  "read_specific_options opts ls = Inr m \<Longrightarrow> CHR ''/'' \<in> set k \<Longrightarrow> m k = opts k"
proof (induction ls arbitrary: opts)
  case Nil
  then show ?case by simp
next
  case (Cons l ls)
  from Cons.prems(1) obtain name remaining lab remaining' vals where
    n: "split1 CHR ''/'' l = [name, remaining]"
    and r: "read_specific_options
              (opts(name \<mapsto> \<lparr>current = current_value vals, label = lab, allowed_values = vals\<rparr>)) ls
            = Inr m"
    by (auto split: list.splits sum.splits)
  from split1_pair [OF n] Cons.prems(2) have "name \<noteq> k"
    by auto
  with Cons.IH [OF r Cons.prems(2)] show ?case
    by simp
qed

lemma slash_name_never_current:
  assumes "(k, v) \<in> set (options p)" and "CHR ''/'' \<in> set k"
    and "check_printer_options run p s = (Inr ok, s')"
  shows "\<not> ok"
proof -
  from assms(3) obtain m where
    m: "parse_specific_options (fst (snd (fst (run_command run [''lpoptions'', ''-p'', destination p, ''-l''] s)))) = Inr m"
    and ok: "ok = printer_options_match (options p) m"
    by (auto simp: check_printer_options_def get_printer_specific_options_def
        split: prod.splits sum.splits)
  from m assms(2) have "m k = None"
    using read_specific_options_names [of Map.empty _ m k]
    by (simp add: parse_specific_options_def)
  with assms(1) ok show ?thesis
    by (auto simp: printer_options_match_def list_all_iff)
qed

lemma init_options: "options (init params) = options params"
  by (simp add: init_def split: option.splits)

lemma slash_name_always_changed:
  assumes "(k, v) \<in> set (options params)" and "CHR ''/'' \<in> set k"
    and "main run params Present s = (Inr r, s')"
  shows "changed r"
proof -
  from assms(3) obtain rc out err acc2 s2 where
    c: "apply_options run (init params) acc2 s2 = (Inr (rc, out, err), s')"
    and ch: "changed r = (rc \<noteq> None)"
    by (auto simp: main_def install_def Let_def split: option.splits prod.splits sum.splits)
  from c obtain ok s3 where o: "check_printer_options run (init params) s2 = (Inr ok, s3)"
    by (auto simp: apply_options_def split: prod.splits sum.splits)
  from slash_name_never_current [OF _ assms(2) o] assms(1) have "\<not> ok"
    by (simp add: init_options)
  with c o have "rc \<noteq> None"
    using append_output_rc [of acc2]
    by (auto simp: apply_options_def split: prod.splits) (metis fst_conv)
  with ch show ?thesis by simp
qed

lemma init_enabled: "init (params\<lparr>enabled := e\<rparr>) = (init params)\<lparr>enabled := e\<rparr>"
  by (simp add: init_def split: option.splits)

lemma exists_enabled: "exists run (p\<lparr>enabled := e\<rparr>) s = exists run p s"
  by (simp add: exists_def)

lemma expected_cups_options_enabled:
  "expected_cups_options (p\<lparr>enabled := e\<rparr>) mm = expected_cups_options p mm"
  by (simp add: expected_cups_options_def)

lemma check_cups_options_enabled:
  "check_cups_options run (p\<lparr>enabled := e\<rparr>) s = check_cups_options run p s"
  by (simp add: check_cups_options_def get_make_and_model_def get_printer_cups_options_def
      expected_cups_options_enabled cong: prod.case_cong sum.case_cong)

lemma check_printer_options_enabled:
  "check_printer_options run (p\<lparr>enabled := e\<rparr>) s = check_printer_options run p s"
  by (simp add: check_printer_options_def get_printer_specific_options_def
      cong: prod.case_cong sum.case_cong)

lemma expected_location:
  "cups_options_match (expected_cups_options p mm) co \<Longrightarrow>
     co ''printer-location'' = Some (location p)"
  by (auto simp: cups_options_match_def expected_cups_options_def split: option.splits)

section \<open>The desired options\<close>

text \<open>
  C5. The third block of \<open>install\<close> reads the listing of the driver-specific options.
  When the listing cannot be read the run ends with that failure and nothing is set.
  Otherwise only the keys of the desired options are looked up: when every desired key is
  listed with a current value equal to the desired one (so also when no option is
  desired), the outcome is left as it was and the listing is the only command issued;
  when one desired key is not listed or has another current value, one command
  \<open>lpadmin -p <destination>\<close> with a \<open>-o key=value\<close> for every desired option is
  issued after the listing, and its result is appended to the outcome. In a run of
  \<open>install\<close> whose first two blocks return, the result is the result of this block.
\<close>

theorem options_reapplied_as_batch:
  assumes "get_printer_specific_options run p s = (r, s1)"
  shows "apply_options run p acc s =
           (case r of
              Inl e \<Rightarrow> (Inl e, s1)
            | Inr printer_options \<Rightarrow>
                if \<forall>(k, v) \<in> set (options p).
                     \<exists>i. printer_options k = Some i \<and> current i = Some v
                then (Inr acc, s1)
                else (Inr (append_output acc
                        (fst (run_command run
                           ([''lpadmin'', ''-p'', destination p]
                            @ concat (map (\<lambda>(k, v). [''-o'', k @ ''='' @ v]) (options p))) s1))),
                      snd (run_command run
                           ([''lpadmin'', ''-p'', destination p]
                            @ concat (map (\<lambda>(k, v). [''-o'', k @ ''='' @ v]) (options p))) s1)))
     \<and> calls (snd (apply_options run p acc s)) =
         calls s @ [[''lpoptions'', ''-p'', destination p, ''-l'']]
         @ (case r of
              Inl e \<Rightarrow> []
            | Inr printer_options \<Rightarrow>
                if \<forall>(k, v) \<in> set (options p).
                     \<exists>i. printer_options k = Some i \<and> current i = Some v
                then []
                else [[''lpadmin'', ''-p'', destination p]
                      @ concat (map (\<lambda>(k, v). [''-o'', k @ ''='' @ v]) (options p))])
     \<and> (\<forall>u s0 acc1 s0'. uri p = Some u
           \<and> remove_mismatched run p (None, [], []) s0 = (Inr acc1, s0')
           \<and> create_missing run p acc1 s0' = (Inr acc, s)
           \<longrightarrow> install run p s0 = apply_options run p acc s)"
proof -
  let ?cmd = "[''lpadmin'', ''-p'', destination p]
                @ concat (map (\<lambda>(k, v). [''-o'', k @ ''='' @ v]) (options p))"
  have m: "printer_options_match (options p) po \<longleftrightarrow>
            (\<forall>(k, v) \<in> set (options p). \<exists>i. po k = Some i \<and> current i = Some v)" for po
    by (auto simp: printer_options_match_def list_all_iff split: option.splits)
  have a: "apply_options run p acc s =
           (case r of
              Inl e \<Rightarrow> (Inl e, s1)
            | Inr printer_options \<Rightarrow>
                if \<forall>(k, v) \<in> set (options p).
                     \<exists>i. printer_options k = Some i \<and> current i = Some v
                then (Inr acc, s1)
                else (Inr (append_output acc (fst (run_command run ?cmd s1))),
                      snd (run_command run ?cmd s1)))"
    using assms
    by (simp add: apply_options_def check_printer_options_def install_printer_options_def
        install_printer_options_cmd_def m split: sum.splits prod.splits)
  have c1: "calls s1 = calls s @ [[''lpoptions'', ''-p'', destination p, ''-l'']]"
    using get_printer_specific_options_calls [OF assms] .
  have c2: "calls (snd (run_command run ?cmd s1)) = calls s1 @ [?cmd]"
    using run_command_calls [of run ?cmd s1] by (metis prod.collapse)
  have b: "calls (snd (apply_options run p acc s)) =
         calls s @ [[''lpoptions'', ''-p'', destination p, ''-l'']]
         @ (case r of
              Inl e \<Rightarrow> []
            | Inr printer_options \<Rightarrow>
                if \<forall>(k, v) \<in> set (options p).
                     \<exists>i. printer_options k = Some i \<and> current i = Some v
                then []
                else [?cmd])"
    unfolding a using c1 c2 by (simp split: sum.splits)
  have c: "\<forall>u s0 acc1 s0'. uri p = Some u
           \<and> remove_mismatched run p (None, [], []) s0 = (Inr acc1, s0')
           \<and> create_missing run p acc1 s0' = (Inr acc, s)
           \<longrightarrow> install run p s0 = apply_options run p acc s"
    by (simp add: install_def)
  from a b c show ?thesis
    by blast
qed

theorem options_reapplied_as_batch_witness:
  "fst (get_printer_specific_options replay zebra_page_size (start letter_current))
     = Inr [''PageSize'' \<mapsto> \<lparr>current = Some ''Letter'', label = ''Page Size'',
                              allowed_values = [''*Letter'', ''A4'']\<rparr>]
   \<and> apply_options replay zebra_page_size (None, [], []) (start letter_current)
     = (Inr (Some 0, ''done'', []),
        \<lparr>world = [],
           calls = [[''lpoptions'', ''-p'', ''zebra'', ''-l''],
                    [''lpadmin'', ''-p'', ''zebra'', ''-o'', ''PageSize=A4'']]\<rparr>)
   \<and> apply_options replay zebra_page_size (None, [], []) (start a4_current)
     = (Inr (None, [], []),
        \<lparr>world = [([''lpadmin'', ''-p'', ''zebra'', ''-o'', ''PageSize=A4''], (0, ''done'', []))],
           calls = [[''lpoptions'', ''-p'', ''zebra'', ''-l'']]\<rparr>)"
proof -
  let ?set = "[''lpadmin'', ''-p'', ''zebra'', ''-o'', ''PageSize=A4'']"
  let ?s1 = "\<lparr>world = [(?set, (0::int, ''done'', []::string))],
              calls = [[''lpoptions'', ''-p'', ''zebra'', ''-l'']]\<rparr>"
  let ?letter = "[''PageSize'' \<mapsto> \<lparr>current = Some ''Letter'', label = ''Page Size'',
                                    allowed_values = [''*Letter'', ''A4'']\<rparr>]"
  let ?a4 = "[''PageSize'' \<mapsto> \<lparr>current = Some ''A4'', label = ''Page Size'',
                                allowed_values = [''Letter'', ''*A4'']\<rparr>]"
  have l: "get_printer_specific_options replay zebra_page_size (start letter_current)
             = (Inr ?letter, ?s1)"
    by (simp add: world_defs zebra_page_size_def letter_current_def a4_current_def run_defs str_defs lex_defs)
  have a: "get_printer_specific_options replay zebra_page_size (start a4_current)
             = (Inr ?a4, ?s1)"
    by (simp add: world_defs zebra_page_size_def letter_current_def a4_current_def run_defs str_defs lex_defs)
  have r: "run_command replay ?set ?s1 =
             ((0, ''done'', []), \<lparr>world = [], calls = [[''lpoptions'', ''-p'', ''zebra'', ''-l''], ?set]\<rparr>)"
    by (simp add: run_command_def replay_def)
  have d: "destination zebra_page_size = ''zebra''" and o: "options zebra_page_size = [(''PageSize'', ''A4'')]"
    by (simp_all add: world_defs zebra_page_size_def letter_current_def a4_current_def)
  from options_reapplied_as_batch [OF l, of "(None, [], [])"]
  have "apply_options replay zebra_page_size (None, [], []) (start letter_current)
     = (Inr (Some 0, ''done'', []),
        \<lparr>world = [], calls = [[''lpoptions'', ''-p'', ''zebra'', ''-l''], ?set]\<rparr>)"
    by (simp add: d o r append_output_def strip_nl_def strip_chars_def)
  moreover from options_reapplied_as_batch [OF a, of "(None, [], [])"]
  have "apply_options replay zebra_page_size (None, [], []) (start a4_current)
     = (Inr (None, [], []), ?s1)"
    by (simp add: d o)
  ultimately show ?thesis
    using l by simp
qed

section \<open>The enabled flag\<close>

text \<open>
  C9. The expected CUPS options, the check of the CUPS options and the check of the
  driver-specific options are the same whatever the value of \<open>enabled\<close>. So when the
  queue exists, the CUPS options match and the desired options are current, the module
  returns \<open>changed = False\<close> and issues no mutating command for either value of
  \<open>enabled\<close>, whatever state the subsystem reports for the queue. Of the three commands
  the module builds, only the create command depends on \<open>enabled\<close>: it carries \<open>-E\<close>
  exactly when the flag is set.
\<close>

theorem enabled_not_compared:
  assumes "uri params = Some u"
    and "exists run (init params) s = (True, s1)"
    and "check_cups_options run (init params) s1 = (Inr True, s2)"
    and "exists run (init params) s2 = (True, s3)"
    and "check_printer_options run (init params) s3 = (Inr True, s4)"
  shows "main run (params\<lparr>enabled := e\<rparr>) Present s =
           (Inr \<lparr>res_state = Present, res_destination = destination params, changed = False,
                  stdout = None, stderr = None\<rparr>, s4)
     \<and> mutations s4 = mutations s
     \<and> expected_cups_options (p\<lparr>enabled := e\<rparr>) mm = expected_cups_options p mm
     \<and> check_cups_options run (p\<lparr>enabled := e\<rparr>) t = check_cups_options run p t
     \<and> check_printer_options run (p\<lparr>enabled := e\<rparr>) t = check_printer_options run p t
     \<and> install_printer_cmd (p\<lparr>enabled := True\<rparr>) v =
         [''lpadmin'', ''-p'', destination p, ''-v'', v, ''-E'']
         @ drop 5 (install_printer_cmd (p\<lparr>enabled := False\<rparr>) v)
     \<and> install_printer_options_cmd (p\<lparr>enabled := e\<rparr>) = install_printer_options_cmd p
     \<and> uninstall_printer_cmd (p\<lparr>enabled := e\<rparr>) = uninstall_printer_cmd p"
proof -
  obtain u' where u: "uri ((init params)\<lparr>enabled := e\<rparr>) = Some u'"
    using init_uri_Some [OF assms(1)] by auto
  have "install run ((init params)\<lparr>enabled := e\<rparr>) s = (Inr (None, [], []), s4)
      \<and> mutations s4 = mutations s"
    using assms(2-5)
    by (intro install_converged [OF u, of run s s1 s2 s3 s4])
      (simp_all add: exists_enabled check_cups_options_enabled check_printer_options_enabled)
  then have "main run (params\<lparr>enabled := e\<rparr>) Present s =
           (Inr \<lparr>res_state = Present, res_destination = destination params, changed = False,
                  stdout = None, stderr = None\<rparr>, s4)" and "mutations s4 = mutations s"
    by (simp_all add: main_def Let_def init_enabled init_destination)
  then show ?thesis
    by (simp add: expected_cups_options_enabled check_cups_options_enabled
        check_printer_options_enabled install_printer_cmd_def install_printer_options_cmd_def
        uninstall_printer_cmd_def)
qed

theorem enabled_not_compared_witness:
  "enabled zebra_raw
   \<and> main replay (zebra_raw\<lparr>enabled := True\<rparr>) Present (start stopped_queue)
     = (Inr \<lparr>res_state = Present, res_destination = ''zebra'', changed = False,
              stdout = None, stderr = None\<rparr>,
        \<lparr>world = [],
           calls = [[''lpstat'', ''-p'', ''zebra''], [''lpoptions'', ''-p'', ''zebra''],
                    [''lpstat'', ''-p'', ''zebra''], [''lpoptions'', ''-p'', ''zebra'', ''-l'']]\<rparr>)
   \<and> main replay (zebra_raw\<lparr>enabled := False\<rparr>) Present (start stopped_queue)
     = main replay (zebra_raw\<lparr>enabled := True\<rparr>) Present (start stopped_queue)"
proof -
  let ?q = "[''lpstat'', ''-p'', ''zebra'']"
  let ?l = "[''lpoptions'', ''-p'', ''zebra'', ''-l'']"
  let ?o = "[''lpoptions'', ''-p'', ''zebra'']"
  let ?ok = "(0::int, []::string, []::string)"
  let ?s1 = "\<lparr>world = [(?o, (0::int, raw_listing, []::string)), (?q, ?ok), (?l, ?ok)],
              calls = [?q]\<rparr>"
  let ?s2 = "\<lparr>world = [(?q, ?ok), (?l, ?ok)], calls = [?q, ?o]\<rparr>"
  let ?s3 = "\<lparr>world = [(?l, ?ok)], calls = [?q, ?o, ?q]\<rparr>"
  let ?s4 = "\<lparr>world = []::(string list \<times> cmd_result) list, calls = [?q, ?o, ?q, ?l]\<rparr>"
  have u: "uri zebra_raw = Some ''192.168.1.2''" and en: "enabled zebra_raw"
    and d: "destination zebra_raw = ''zebra''"
    by (simp_all add: world_defs stopped_queue_def)
  have e1: "exists replay (init zebra_raw) (start stopped_queue) = (True, ?s1)"
    by (simp add: world_defs stopped_queue_def run_defs str_defs)
  have c1: "check_cups_options replay (init zebra_raw) ?s1 = (Inr True, ?s2)"
    by (simp add: world_defs stopped_queue_def run_defs str_defs lex_defs)
  have e2: "exists replay (init zebra_raw) ?s2 = (True, ?s3)"
    by (simp add: world_defs stopped_queue_def run_defs str_defs)
  have c2: "check_printer_options replay (init zebra_raw) ?s3 = (Inr True, ?s4)"
    by (simp add: world_defs stopped_queue_def run_defs str_defs)
  from enabled_not_compared [OF u e1 c1 e2 c2, of True]
  have t: "main replay (zebra_raw\<lparr>enabled := True\<rparr>) Present (start stopped_queue) =
           (Inr \<lparr>res_state = Present, res_destination = destination zebra_raw, changed = False,
                  stdout = None, stderr = None\<rparr>, ?s4)"
    by blast
  from enabled_not_compared [OF u e1 c1 e2 c2, of False]
  have f: "main replay (zebra_raw\<lparr>enabled := False\<rparr>) Present (start stopped_queue) =
           (Inr \<lparr>res_state = Present, res_destination = destination zebra_raw, changed = False,
                  stdout = None, stderr = None\<rparr>, ?s4)"
    by blast
  from t f en d show ?thesis
    by simp
qed

section \<open>A location that is not set\<close>

text \<open>
  C10. When the desired location is not set, the CUPS options match only if the listing
  has \<open>printer-location\<close> as a bare token, which is stored with the value \<open>None\<close>; the
  token \<open>printer-location=\<close> is stored with the empty string, and a listing without the
  token has no such key. For a queue that exists, whose make and model can be determined
  and whose listing has no \<open>printer-location\<close> or has it with a string value, the check
  fails, the removal command is issued, and once the existence query reports the queue as
  gone the create command is issued; \<open>install\<close> goes on with the desired options.
\<close>

theorem null_location_needs_bare_flag:
  assumes "location p = None" and "uri p = Some u"
    and "exists run p s = (True, s1)"
    and "get_make_and_model run p s1 = (Inr mm, s2)"
    and "get_printer_cups_options run p s2 = (Inr cups_options, s3)"
    and "cups_options ''printer-location'' \<noteq> Some None"
    and "uninstall_printer run p s3 = (r, s4)"
    and "exists run p s4 = (False, s5)"
    and "install_printer run p s5 = (Inr r', s6)"
  shows "check_cups_options run p s1 = (Inr False, s3)
     \<and> install run p s =
         apply_options run p (append_output (append_output (None, [], []) r) r') s6
     \<and> calls s6 = calls s3 @ [[''lpadmin'', ''-x'', destination p],
                                 [''lpstat'', ''-p'', destination p],
                                 install_printer_cmd p u]
     \<and> (\<forall>co. cups_options_match (expected_cups_options p mm) co \<longrightarrow>
               co ''printer-location'' = Some None)
     \<and> (case parse_cups_options ''printer-location'' of
          Inl e \<Rightarrow> False | Inr co \<Rightarrow> co ''printer-location'' = Some None)
     \<and> (case parse_cups_options ''printer-location='' of
          Inl e \<Rightarrow> False | Inr co \<Rightarrow> co ''printer-location'' = Some (Some []))
     \<and> (case parse_cups_options ''printer-info=zebra'' of
          Inl e \<Rightarrow> False | Inr co \<Rightarrow> co ''printer-location'' = None)"
proof -
  have nm: "\<not> cups_options_match (expected_cups_options p mm) cups_options"
    using expected_location [of p mm cups_options] assms(1,6) by auto
  have a: "check_cups_options run p s1 = (Inr False, s3)"
    using assms(4,5) nm by (simp add: check_cups_options_def)
  have b: "install run p s =
         apply_options run p (append_output (append_output (None, [], []) r) r') s6"
    using assms(2,3,7,8,9) a
    by (simp add: install_def remove_mismatched_def create_missing_def)
  have c: "calls s6 = calls s3 @ [[''lpadmin'', ''-x'', destination p],
                                 [''lpstat'', ''-p'', destination p],
                                 install_printer_cmd p u]"
    using uninstall_printer_calls [OF assms(7)] exists_calls [OF assms(8)]
      install_printer_calls [OF assms(2,9)] by simp
  have d: "\<forall>co. cups_options_match (expected_cups_options p mm) co \<longrightarrow>
               co ''printer-location'' = Some None"
    using expected_location [of p mm] assms(1) by auto
  have e: "(case parse_cups_options ''printer-location'' of
          Inl e \<Rightarrow> False | Inr co \<Rightarrow> co ''printer-location'' = Some None)
     \<and> (case parse_cups_options ''printer-location='' of
          Inl e \<Rightarrow> False | Inr co \<Rightarrow> co ''printer-location'' = Some (Some []))
     \<and> (case parse_cups_options ''printer-info=zebra'' of
          Inl e \<Rightarrow> False | Inr co \<Rightarrow> co ''printer-location'' = None)"
    by (simp add: parse_cups_options_def store_cups_option_def lex_defs split1_def)
  from a b c d e show ?thesis
    by blast
qed

theorem null_location_needs_bare_flag_witness:
  "location (init zebra_raw) = None
   \<and> install replay (init zebra_raw) (start office_queue)
     = (Inr (Some 0, [], []),
        \<lparr>world = [],
           calls = [[''lpstat'', ''-p'', ''zebra''], [''lpoptions'', ''-p'', ''zebra''],
                    [''lpadmin'', ''-x'', ''zebra''], [''lpstat'', ''-p'', ''zebra''],
                    create_zebra_raw, [''lpoptions'', ''-p'', ''zebra'', ''-l'']]\<rparr>)"
proof -
  let ?p = "init zebra_raw"
  let ?q = "[''lpstat'', ''-p'', ''zebra'']"
  let ?l = "[''lpoptions'', ''-p'', ''zebra'', ''-l'']"
  let ?o = "[''lpoptions'', ''-p'', ''zebra'']"
  let ?x = "[''lpadmin'', ''-x'', ''zebra'']"
  let ?ok = "(0::int, []::string, []::string)"
  let ?s1 = "\<lparr>world = [(?o, (0::int, office_listing, []::string)), (?x, ?ok),
                       (?q, (1, [], [])), (create_zebra_raw, ?ok), (?l, ?ok)],
              calls = [?q]\<rparr>"
  let ?s3 = "\<lparr>world = [(?x, ?ok), (?q, (1::int, []::string, []::string)),
                       (create_zebra_raw, ?ok), (?l, ?ok)],
              calls = [?q, ?o]\<rparr>"
  let ?s4 = "\<lparr>world = [(?q, (1::int, []::string, []::string)), (create_zebra_raw, ?ok), (?l, ?ok)],
              calls = [?q, ?o, ?x]\<rparr>"
  let ?s5 = "\<lparr>world = [(create_zebra_raw, ?ok), (?l, ?ok)], calls = [?q, ?o, ?x, ?q]\<rparr>"
  let ?s6 = "\<lparr>world = [(?l, ?ok)], calls = [?q, ?o, ?x, ?q, create_zebra_raw]\<rparr>"
  have loc: "location ?p = None" and u: "uri ?p = Some ''lpd://192.168.1.2/''"
    by (simp_all add: world_defs office_queue_def init_def startswith_def)
  have e1: "exists replay ?p (start office_queue) = (True, ?s1)"
    by (simp add: world_defs office_queue_def run_defs str_defs)
  have mm: "get_make_and_model replay ?p ?s1 = (Inr ''Local Raw Printer'', ?s1)"
    by (simp add: world_defs office_queue_def get_make_and_model_def init_def startswith_def)
  have "case parse_cups_options office_listing of
          Inl e \<Rightarrow> False | Inr co \<Rightarrow> co ''printer-location'' = Some (Some ''Office'')"
    by (simp add: office_listing_def parse_cups_options_def store_cups_option_def lex_defs
        split1_def)
  then obtain co where co: "parse_cups_options office_listing = Inr co"
    and office: "co ''printer-location'' = Some (Some ''Office'')"
    by (auto split: sum.splits)
  have g: "get_printer_cups_options replay ?p ?s1 = (Inr co, ?s3)"
    using co
    by (simp add: get_printer_cups_options_def run_command_def replay_def init_destination
        zebra_raw_def zebra_def create_zebra_raw_def)
  have ne: "co ''printer-location'' \<noteq> Some None"
    using office by simp
  have x: "uninstall_printer replay ?p ?s3 = (?ok, ?s4)"
    by (simp add: uninstall_printer_def uninstall_printer_cmd_def run_command_def replay_def
        init_destination zebra_raw_def zebra_def create_zebra_raw_def)
  have e2: "exists replay ?p ?s4 = (False, ?s5)"
    by (simp add: exists_def run_command_def replay_def init_destination zebra_raw_def zebra_def
        create_zebra_raw_def)
  have c: "install_printer replay ?p ?s5 = (Inr ?ok, ?s6)"
    by (simp add: world_defs office_queue_def run_defs str_defs)
  have a: "apply_options replay ?p (append_output (append_output (None, [], []) ?ok) ?ok) ?s6
      = (Inr (Some 0, [], []),
         \<lparr>world = [], calls = [?q, ?o, ?x, ?q, create_zebra_raw, ?l]\<rparr>)"
    by (simp add: world_defs office_queue_def run_defs str_defs)
  from null_location_needs_bare_flag [OF loc u e1 mm g ne x e2 c]
  have "install replay ?p (start office_queue) =
         apply_options replay ?p (append_output (append_output (None, [], []) ?ok) ?ok) ?s6"
    by blast
  with a loc show ?thesis
    by simp
qed

section \<open>What the module reads back from the subsystem that applies the commands\<close>














































section \<open>Calling the module twice\<close>




end
